theory Spec2Isabelle
  imports Complex_Main
begin

section \<open>Data model of app.py\<close>

text \<open>
  The script keeps its state in \<open>st.session_state\<close> and is executed from top to bottom once
  per user interaction. Strings are byte lists; the three non-ASCII glyphs of the source
  (the warning sign, the check mark and the cursor block) appear as their UTF-8 bytes.
\<close>

text \<open>A transcript entry, the dict \<open>{"role": ..., "content": ...}\<close> of lines 103, 160, 188.\<close>

record message =
  role :: string
  content :: string

text \<open>The opaque handle that \<open>model.start_chat\<close> returns (line 32). Such an object is truthy.\<close>

datatype chat_session = ChatSession nat

text \<open>
  \<open>st.session_state\<close> as it is found at the start of a run: \<open>None\<close> says that the key is
  not in the dictionary. For \<open>chat_session\<close> the key can be there with the value \<open>None\<close>
  (line 86, line 142), which is \<open>Some None\<close>.
\<close>

record session_state_dict =
  api_key_entry :: "string option"
  model_name_entry :: "string option"
  system_prompt_entry :: "string option"
  messages_entry :: "message list option"
  chat_session_entry :: "chat_session option option"

text \<open>\<open>st.session_state\<close> from line 145 on, where every key is set.\<close>

record session_state =
  api_key :: string
  model_name :: string
  system_prompt :: string
  messages :: "message list"
  chat_session :: "chat_session option"

text \<open>The three options of the select box (lines 57 to 67).\<close>

datatype model_option = Gemini_1_5_Flash | Gemini_1_0_Pro | Gemini_1_5_Pro

fun selected_model_display_name :: "model_option \<Rightarrow> string" where
  "selected_model_display_name Gemini_1_5_Flash = ''Gemini 1.5 Flash (Latest)''"
| "selected_model_display_name Gemini_1_0_Pro = ''Gemini 1.0 Pro''"
| "selected_model_display_name Gemini_1_5_Pro = ''Gemini 1.5 Pro (Latest)''"

fun available_models :: "model_option \<Rightarrow> string" where
  "available_models Gemini_1_5_Flash = ''gemini-1.5-flash-latest''"
| "available_models Gemini_1_0_Pro = ''gemini-1.0-pro''"
| "available_models Gemini_1_5_Pro = ''gemini-1.5-pro-latest''"

text \<open>
  What the widgets and the environment return in one run: the sidebar (lines 48 to 84) and
  the chat input (line 153). \<open>user_prompt\<close> is \<open>None\<close> when nothing was submitted.
\<close>

record widgets =
  env_api_key :: "string option"
  api_key_input :: string
  selected_model :: model_option
  system_prompt_input :: string
  temperature :: real
  max_tokens :: int
  clear_button :: bool
  user_prompt :: "string option"

definition MODEL_NAME :: "widgets \<Rightarrow> string" where
  "MODEL_NAME w = available_models (selected_model w)"

record generation_config =
  cfg_temperature :: real
  cfg_max_output_tokens :: int

text \<open>The exceptions the handler tells apart (lines 190 to 198), each with its \<open>str(e)\<close>.\<close>

datatype exc =
  BlockedPromptException string
| StopCandidateException string
| OtherException string

fun str_exc :: "exc \<Rightarrow> string" where
  "str_exc (BlockedPromptException d) = d"
| "str_exc (StopCandidateException d) = d"
| "str_exc (OtherException d) = d"

text \<open>
  What \<open>hasattr(chunk, 'text')\<close> of line 177 meets in a chunk. The attribute is there and
  gives a string (\<open>Text\<close>); the chunk has no such attribute, so that \<open>hasattr\<close> is false
  and only the \<open>str\<close> of the chunk is used, at line 182 (\<open>NoText\<close>); or the attribute is a
  property whose getter raises an exception other than \<open>AttributeError\<close>, which
  \<open>hasattr\<close> does not catch (\<open>TextRaises\<close>). The response chunks of the client library
  are of the first and third kind: their \<open>text\<close> property raises \<open>ValueError\<close> when the
  chunk holds no text part.
\<close>

datatype chunk = Text string | NoText string | TextRaises exc

text \<open>
  The answer of \<open>send_message(user_prompt, stream=True)\<close>: a finite lazy sequence that is
  exhausted, yields a chunk, or raises. A call that raises before any chunk is \<open>Raise e\<close>.
\<close>

datatype response_stream =
  Exhausted
| Yield chunk response_stream
| Raise exc

text \<open>
  The remote service as the script sees it in one run: \<open>start_chat\<close> stands for lines 25 to
  32 (\<open>Inl d\<close> is an exception with description \<open>d\<close>), \<open>send_message\<close> for line 171.
\<close>

record remote =
  start_chat :: "string \<Rightarrow> string \<Rightarrow> (string \<times> string) list \<Rightarrow> generation_config
                 \<Rightarrow> string option \<Rightarrow> string + chat_session"
  send_message :: "chat_session \<Rightarrow> string \<Rightarrow> response_stream"

text \<open>What a run shows to the user and asks of the remote service, in order.\<close>

datatype effect =
  StError string
| StWarning string
| StToast string
| ChatMarkdown string string
| PlaceholderMarkdown string
| CallStartChat string string "string option" generation_config
| CallSendMessage chat_session string

section \<open>The script\<close>

definition warning_sign :: string where
  "warning_sign = [CHR 0xE2, CHR 0x9A, CHR 0xA0, CHR 0xEF, CHR 0xB8, CHR 0x8F]"

definition cursor :: string where
  "cursor = [CHR 0xE2, CHR 0x96, CHR 0x8C]"

subsection \<open>initialize_chat_session (lines 22 to 36)\<close>

definition initialize_chat_session ::
  "remote \<Rightarrow> string \<Rightarrow> string \<Rightarrow> string option \<Rightarrow> (string \<times> string) list
     \<Rightarrow> generation_config \<Rightarrow> chat_session option \<times> effect list" where
  "initialize_chat_session r key name system_instruction safety generation =
     (let instruction = (case system_instruction of
                           None \<Rightarrow> None
                         | Some t \<Rightarrow> if t \<noteq> [] then Some t else None)
      in case start_chat r key name safety generation instruction of
           Inr chat \<Rightarrow> (Some chat, [CallStartChat key name instruction generation])
         | Inl e \<Rightarrow> (None, [CallStartChat key name instruction generation,
                             StError (''Error initializing Gemini model: '' @ e)]))"

subsection \<open>The clear button (lines 84 to 87)\<close>

definition clear_chat_history :: "session_state_dict \<Rightarrow> session_state_dict" where
  "clear_chat_history d = d\<lparr>messages_entry := Some [], chat_session_entry := Some None\<rparr>"

subsection \<open>Session state initialization and re-initialization (lines 92 to 144)\<close>

text \<open>
  Python's \<open>str.strip\<close> removes the white space characters at both ends. These are the
  code points for which \<open>str.isspace\<close> holds, here as their UTF-8 bytes: U+0009 to
  U+000D, U+001C to U+0020, U+0085, U+00A0, U+1680, U+2000 to U+200A, U+2028, U+2029,
  U+202F, U+205F and U+3000.
\<close>

definition whitespace :: "string list" where
  "whitespace =
     [[CHR 0x09], [CHR 0x0A], [CHR 0x0B], [CHR 0x0C], [CHR 0x0D],
      [CHR 0x1C], [CHR 0x1D], [CHR 0x1E], [CHR 0x1F], [CHR 0x20],
      [CHR 0xC2, CHR 0x85], [CHR 0xC2, CHR 0xA0], [CHR 0xE1, CHR 0x9A, CHR 0x80],
      [CHR 0xE2, CHR 0x80, CHR 0x80], [CHR 0xE2, CHR 0x80, CHR 0x81],
      [CHR 0xE2, CHR 0x80, CHR 0x82], [CHR 0xE2, CHR 0x80, CHR 0x83],
      [CHR 0xE2, CHR 0x80, CHR 0x84], [CHR 0xE2, CHR 0x80, CHR 0x85],
      [CHR 0xE2, CHR 0x80, CHR 0x86], [CHR 0xE2, CHR 0x80, CHR 0x87],
      [CHR 0xE2, CHR 0x80, CHR 0x88], [CHR 0xE2, CHR 0x80, CHR 0x89],
      [CHR 0xE2, CHR 0x80, CHR 0x8A], [CHR 0xE2, CHR 0x80, CHR 0xA8],
      [CHR 0xE2, CHR 0x80, CHR 0xA9], [CHR 0xE2, CHR 0x80, CHR 0xAF],
      [CHR 0xE2, CHR 0x81, CHR 0x9F], [CHR 0xE3, CHR 0x80, CHR 0x80]]"

text \<open>Removes from the front of a string every leading occurrence of one of \<open>ws\<close>.\<close>

fun lstrip_with :: "string list \<Rightarrow> string \<Rightarrow> string" where
  "lstrip_with ws [] = []"
| "lstrip_with ws (c # cs) =
     (case List.find (\<lambda>s. s \<noteq> [] \<and> take (length s) (c # cs) = s) ws of
        Some s \<Rightarrow> lstrip_with ws (drop (length s - 1) cs)
      | None \<Rightarrow> c # cs)"

definition strip :: "string \<Rightarrow> string" where
  "strip t = rev (lstrip_with (map rev whitespace) (rev (lstrip_with whitespace t)))"

definition safety_settings :: "(string \<times> string) list" where
  "safety_settings =
     [(''HARM_CATEGORY_HARASSMENT'', ''BLOCK_MEDIUM_AND_ABOVE''),
      (''HARM_CATEGORY_HATE_SPEECH'', ''BLOCK_MEDIUM_AND_ABOVE''),
      (''HARM_CATEGORY_SEXUALLY_EXPLICIT'', ''BLOCK_MEDIUM_AND_ABOVE''),
      (''HARM_CATEGORY_DANGEROUS_CONTENT'', ''BLOCK_MEDIUM_AND_ABOVE'')]"

text \<open>
  Lines 92 to 103: a key that is missing is set, the first three from the widgets. The
  \<open>chat_session\<close> entry is passed on as it is.
\<close>

definition session_state_initialization ::
  "widgets \<Rightarrow> session_state_dict \<Rightarrow> session_state \<times> chat_session option option" where
  "session_state_initialization w d =
     (\<lparr>api_key = (case api_key_entry d of None \<Rightarrow> api_key_input w | Some k \<Rightarrow> k),
       model_name = (case model_name_entry d of None \<Rightarrow> MODEL_NAME w | Some m \<Rightarrow> m),
       system_prompt =
         (case system_prompt_entry d of None \<Rightarrow> system_prompt_input w | Some p \<Rightarrow> p),
       messages = (case messages_entry d of None \<Rightarrow> [] | Some ms \<Rightarrow> ms),
       chat_session = None\<rparr>,
      chat_session_entry d)"

text \<open>The condition of lines 107 to 110.\<close>

definition settings_changed ::
  "widgets \<Rightarrow> session_state \<times> chat_session option option \<Rightarrow> bool" where
  "settings_changed w sc =
     (snd sc = None \<or>
      api_key (fst sc) \<noteq> api_key_input w \<or>
      model_name (fst sc) \<noteq> MODEL_NAME w \<or>
      system_prompt (fst sc) \<noteq> system_prompt_input w)"

text \<open>The body of the \<open>if\<close>, lines 112 to 144.\<close>

definition reinitialize :: "remote \<Rightarrow> widgets \<Rightarrow> session_state \<Rightarrow> session_state \<times> effect list" where
  "reinitialize r w s0 =
     (let s = s0\<lparr>api_key := api_key_input w, model_name := MODEL_NAME w,
                 system_prompt := system_prompt_input w\<rparr>
      in if api_key s \<noteq> [] then
           (let generation = \<lparr>cfg_temperature = temperature w,
                               cfg_max_output_tokens = max_tokens w\<rparr>;
                (chat, es) = initialize_chat_session r (api_key s) (model_name s)
                               (if strip (system_prompt s) \<noteq> [] then Some (system_prompt s)
                                else None)
                               safety_settings generation
            in case chat of
                 Some c \<Rightarrow>
                   (s\<lparr>messages := [], chat_session := Some c\<rparr>,
                    es @ [StToast (''Chat session initialized with ''
                                   @ selected_model_display_name (selected_model w) @ ''!'')])
               | None \<Rightarrow>
                   (s\<lparr>chat_session := None\<rparr>,
                    es @ [StError
                            ''Failed to initialize chat. Please check API key and model.'']))
         else
           (s\<lparr>chat_session := None\<rparr>,
            if env_api_key w = None \<or> env_api_key w = Some [] then
              [StWarning
                 ''Please enter your Gemini API Key in the sidebar to start chatting.'']
            else []))"

text \<open>Lines 92 to 144 together: the part of the script that binds the session.\<close>

definition session_manager ::
  "remote \<Rightarrow> widgets \<Rightarrow> session_state_dict \<Rightarrow> session_state \<times> effect list" where
  "session_manager r w d =
     (let sc = session_state_initialization w d
      in if settings_changed w sc then reinitialize r w (fst sc)
         else (case snd sc of
                 Some c \<Rightarrow> ((fst sc)\<lparr>chat_session := c\<rparr>, [])
               | None \<Rightarrow> reinitialize r w (fst sc)))"

subsection \<open>Display of the chat history (lines 148 to 150)\<close>

definition display_chat_history :: "session_state \<Rightarrow> effect list" where
  "display_chat_history s = map (\<lambda>m. ChatMarkdown (role m) (content m)) (messages s)"

subsection \<open>The chat input handler (lines 153 to 198)\<close>

text \<open>
  The \<open>for\<close> loop of lines 173 to 183, started with the content accumulated so far. It
  returns what was shown and either the exception that left the loop or the final content.
\<close>

fun for_chunk_in_response_stream ::
  "response_stream \<Rightarrow> string \<Rightarrow> effect list \<times> (exc + string)" where
  "for_chunk_in_response_stream Exhausted full_response_content =
     ([], Inr full_response_content)"
| "for_chunk_in_response_stream (Raise e) full_response_content = ([], Inl e)"
| "for_chunk_in_response_stream (Yield (Text t) rest) full_response_content =
     (let (es, res) = for_chunk_in_response_stream rest (full_response_content @ t)
      in (PlaceholderMarkdown (full_response_content @ t @ cursor) # es, res))"
| "for_chunk_in_response_stream (Yield (NoText c) rest) full_response_content =
     ([StWarning (''Received an unexpected chunk: '' @ c)], Inr full_response_content)"
| "for_chunk_in_response_stream (Yield (TextRaises e) rest) full_response_content =
     ([], Inl e)"

text \<open>The \<open>try\<close> block, lines 166 to 188, on the transcript.\<close>

definition try_send ::
  "remote \<Rightarrow> chat_session \<Rightarrow> string \<Rightarrow> message list \<Rightarrow> effect list \<times> (exc + message list)" where
  "try_send r c prompt ms =
     (let (es, res) = for_chunk_in_response_stream (send_message r c prompt) []
      in case res of
           Inl e \<Rightarrow> (CallSendMessage c prompt # es, Inl e)
         | Inr full_response_content \<Rightarrow>
             (CallSendMessage c prompt # es @ [PlaceholderMarkdown full_response_content],
              Inr (ms @ [\<lparr>role = ''assistant'', content = full_response_content\<rparr>])))"

text \<open>The three \<open>except\<close> clauses, lines 190 to 198.\<close>

fun except :: "exc \<Rightarrow> message list \<Rightarrow> effect list \<times> message list" where
  "except (BlockedPromptException e) ms =
     ([StError (warning_sign @ '' Your input was blocked by the safety filters: '' @ e)],
      ms @ [\<lparr>role = ''assistant'',
              content = ''I'm sorry, I can't respond to that due to safety guidelines. (Blocked Prompt: ''
                        @ e @ '')''\<rparr>])"
| "except (StopCandidateException e) ms =
     ([StError (warning_sign @ '' My response was stopped before completion: '' @ e)],
      ms @ [\<lparr>role = ''assistant'',
              content = ''My apologies, my response was cut short. (Stop Candidate: ''
                        @ e @ '')''\<rparr>])"
| "except (OtherException e) ms =
     ([StError (''An error occurred: '' @ e)],
      ms @ [\<lparr>role = ''assistant'',
              content = ''Sorry, an unexpected error occurred: '' @ e\<rparr>])"

definition handle_user_input ::
  "remote \<Rightarrow> widgets \<Rightarrow> session_state \<Rightarrow> session_state \<times> effect list" where
  "handle_user_input r w s =
     (case user_prompt w of
        None \<Rightarrow> (s, [])
      | Some prompt \<Rightarrow>
          if prompt = [] then (s, [])
          else if api_key s = [] then
            (s, [StError (warning_sign
                          @ '' Please enter your Gemini API Key in the sidebar first!'')])
          else (case chat_session s of
                  None \<Rightarrow>
                    (s, [StError (warning_sign
                           @ '' Chat session not initialized. Please check your API key and configuration in the sidebar.'')])
                | Some c \<Rightarrow>
                    (let ms = messages s @ [\<lparr>role = ''user'', content = prompt\<rparr>];
                         shown = [ChatMarkdown ''user'' prompt];
                         (es, res) = try_send r c prompt ms
                     in case res of
                          Inr ms' \<Rightarrow> (s\<lparr>messages := ms'\<rparr>, shown @ es)
                        | Inl e \<Rightarrow>
                            (let (es', ms') = except e ms
                             in (s\<lparr>messages := ms'\<rparr>, shown @ es @ es')))))"

subsection \<open>One run of the script\<close>

text \<open>Lines 90 to 198, the run after the sidebar.\<close>

definition script_body ::
  "remote \<Rightarrow> widgets \<Rightarrow> session_state_dict \<Rightarrow> session_state \<times> effect list" where
  "script_body r w d =
     (let (s1, es1) = session_manager r w d;
          es2 = display_chat_history s1;
          (s2, es3) = handle_user_input r w s1
      in (s2, es1 @ es2 @ es3))"

text \<open>
  The whole script. A click on the clear button (line 84) resets the two entries and calls
  \<open>st.rerun()\<close>: the script starts again, and in that run neither the button nor the chat
  input fires.
\<close>

definition script_run ::
  "remote \<Rightarrow> widgets \<Rightarrow> session_state_dict \<Rightarrow> session_state \<times> effect list" where
  "script_run r w d =
     (if clear_button w then
        script_body r (w\<lparr>clear_button := False, user_prompt := None\<rparr>) (clear_chat_history d)
      else script_body r w d)"

text \<open>What the next run finds in \<open>st.session_state\<close>.\<close>

definition stored :: "session_state \<Rightarrow> session_state_dict" where
  "stored s =
     \<lparr>api_key_entry = Some (api_key s), model_name_entry = Some (model_name s),
      system_prompt_entry = Some (system_prompt s), messages_entry = Some (messages s),
      chat_session_entry = Some (chat_session s)\<rparr>"

definition empty_session_state :: session_state_dict where
  "empty_session_state =
     \<lparr>api_key_entry = None, model_name_entry = None, system_prompt_entry = None,
      messages_entry = None, chat_session_entry = None\<rparr>"

section \<open>Notions used in the statements\<close>

text \<open>The stream that yields the text fragments \<open>ts\<close> in order and then goes on as \<open>rest\<close>.\<close>

fun yield_texts :: "string list \<Rightarrow> response_stream \<Rightarrow> response_stream" where
  "yield_texts [] rest = rest"
| "yield_texts (t # ts) rest = Yield (Text t) (yield_texts ts rest)"

text \<open>The content accumulated after each of the fragments \<open>ts\<close>, starting from \<open>acc\<close>.\<close>

fun partial_contents :: "string \<Rightarrow> string list \<Rightarrow> string list" where
  "partial_contents acc [] = []"
| "partial_contents acc (t # ts) = (acc @ t) # partial_contents (acc @ t) ts"

text \<open>The calls of the remote service among the effects of a run.\<close>

fun is_remote_call :: "effect \<Rightarrow> bool" where
  "is_remote_call (CallStartChat k m i g) = True"
| "is_remote_call (CallSendMessage c p) = True"
| "is_remote_call e = False"

text \<open>The tracked settings of a run are those the session state was bound to.\<close>

definition same_settings :: "widgets \<Rightarrow> session_state \<Rightarrow> bool" where
  "same_settings w s =
     (api_key s = api_key_input w \<and> model_name s = MODEL_NAME w \<and>
      system_prompt s = system_prompt_input w)"

text \<open>The settings that line 128 hands to the remote service for the widgets \<open>w\<close>.\<close>

definition system_instruction_of :: "widgets \<Rightarrow> string option" where
  "system_instruction_of w =
     (if strip (system_prompt_input w) \<noteq> [] then Some (system_prompt_input w) else None)"

definition generation_config_of :: "widgets \<Rightarrow> generation_config" where
  "generation_config_of w =
     \<lparr>cfg_temperature = temperature w, cfg_max_output_tokens = max_tokens w\<rparr>"

text \<open>What the remote service answers to the call of line 128 for the widgets \<open>w\<close>.\<close>

definition start_chat_result :: "remote \<Rightarrow> widgets \<Rightarrow> string + chat_session" where
  "start_chat_result r w =
     start_chat r (api_key_input w) (MODEL_NAME w) safety_settings (generation_config_of w)
       (system_instruction_of w)"

text \<open>The state bound to the settings of \<open>w\<close>, with transcript \<open>ms\<close> and session \<open>c\<close>.\<close>

definition rebound :: "widgets \<Rightarrow> message list \<Rightarrow> chat_session option \<Rightarrow> session_state" where
  "rebound w ms c =
     \<lparr>api_key = api_key_input w, model_name = MODEL_NAME w,
      system_prompt = system_prompt_input w, messages = ms, chat_session = c\<rparr>"

text \<open>The session states at the end of a run, from the empty \<open>st.session_state\<close> on.\<close>

inductive reachable :: "session_state \<Rightarrow> bool" where
  first_run: "reachable (fst (script_run r w empty_session_state))"
| next_run: "reachable s \<Longrightarrow> reachable (fst (script_run r w (stored s)))"

subsection \<open>A concrete remote service and concrete runs\<close>

text \<open>
  A service that accepts one key and gives a session per model; it answers \<open>hi\<close> with
  three fragments, blocks \<open>bad\<close>, and breaks off the answer to \<open>long\<close>. In the answer to
  \<open>odd\<close> the third chunk has no \<open>text\<close> attribute. In the answer to \<open>part\<close> the third
  chunk, and in the answer to \<open>blank\<close> the first chunk, holds no text part, so that its
  \<open>text\<close> property raises \<open>ValueError\<close>.
\<close>

definition no_text_part :: exc where
  "no_text_part =
     OtherException ''The response.text quick accessor requires a valid Part''"

definition example_remote :: remote where
  "example_remote =
     \<lparr>start_chat = (\<lambda>key name safety generation instruction.
        if key = ''valid-key''
        then Inr (if name = ''gemini-1.0-pro'' then ChatSession 2 else ChatSession 1)
        else Inl ''API key not valid''),
      send_message = (\<lambda>c prompt.
        if prompt = ''hi'' then yield_texts [''Hel'', ''lo'', '' there''] Exhausted
        else if prompt = ''bad'' then Raise (BlockedPromptException ''policy X'')
        else if prompt = ''odd'' then
          yield_texts [''par'', ''tial''] (Yield (NoText ''<chunk>'') (Yield (Text ''lost'') Exhausted))
        else if prompt = ''part'' then
          yield_texts [''par'', ''tial'']
            (Yield (TextRaises no_text_part) (Yield (Text ''lost'') Exhausted))
        else if prompt = ''blank'' then Yield (TextRaises no_text_part) Exhausted
        else if prompt = ''long'' then
          yield_texts [''so far''] (Raise (StopCandidateException ''MAX_TOKENS''))
        else Exhausted)\<rparr>"

definition example_widgets :: widgets where
  "example_widgets =
     \<lparr>env_api_key = None, api_key_input = ''valid-key'', selected_model = Gemini_1_5_Flash,
      system_prompt_input = [], temperature = 7 / 10, max_tokens = 2048,
      clear_button = False, user_prompt = None\<rparr>"

definition example_state :: session_state where
  "example_state =
     \<lparr>api_key = ''valid-key'', model_name = ''gemini-1.5-flash-latest'', system_prompt = [],
      messages = [\<lparr>role = ''user'', content = ''hello''\<rparr>,
                  \<lparr>role = ''assistant'', content = ''Hi!''\<rparr>],
      chat_session = Some (ChatSession 1)\<rparr>"

text \<open>The state after a first run in which \<open>hi\<close> is sent.\<close>

definition example_first_run :: session_state where
  "example_first_run =
     fst (script_run example_remote (example_widgets\<lparr>user_prompt := Some ''hi''\<rparr>)
            empty_session_state)"

text \<open>The state after a second run in which the clear button is clicked.\<close>

definition example_cleared :: session_state where
  "example_cleared =
     fst (script_run example_remote (example_widgets\<lparr>clear_button := True\<rparr>)
            (stored example_first_run))"

section \<open>The streaming loop\<close>

lemmas example_defs = example_remote_def example_widgets_def example_state_def
  no_text_part_def

lemma upt_0_Suc: "[0..<Suc n] = 0 # map Suc [0..<n]"
  by (simp only: map_Suc_upt upt_conv_Cons [of 0 "Suc n"] zero_less_Suc)

lemma partial_contents_take:
  "partial_contents acc ts = map (\<lambda>i. acc @ concat (take (Suc i) ts)) [0..<length ts]"
proof (induction ts arbitrary: acc)
  case Nil
  show ?case by simp
next
  case (Cons t ts)
  have "partial_contents acc (t # ts) = (acc @ t) # partial_contents (acc @ t) ts"
    by simp
  also have "\<dots> = (acc @ t) # map (\<lambda>i. (acc @ t) @ concat (take (Suc i) ts)) [0..<length ts]"
    by (simp only: Cons.IH)
  also have "\<dots> = map (\<lambda>i. acc @ concat (take (Suc i) (t # ts))) (0 # map Suc [0..<length ts])"
    by (simp add: comp_def del: upt_Suc)
  also have "\<dots> = map (\<lambda>i. acc @ concat (take (Suc i) (t # ts))) [0..<length (t # ts)]"
    by (simp only: upt_0_Suc length_Cons)
  finally show ?case .
qed

lemma loop_yield_texts:
  "for_chunk_in_response_stream (yield_texts ts rest) acc =
     (map (\<lambda>p. PlaceholderMarkdown (p @ cursor)) (partial_contents acc ts)
        @ fst (for_chunk_in_response_stream rest (acc @ concat ts)),
      snd (for_chunk_in_response_stream rest (acc @ concat ts)))"
  by (induction ts arbitrary: acc) (simp_all add: split_def)

lemma loop_no_remote_call:
  "filter is_remote_call (fst (for_chunk_in_response_stream st acc)) = []"
  by (induction st acc rule: for_chunk_in_response_stream.induct)
    (simp_all add: split_def Let_def)

section \<open>The session manager\<close>

lemma strip_Nil: "strip [] = []"
  by (simp add: strip_def)

lemma strip_nonempty: "strip t \<noteq> [] \<Longrightarrow> t \<noteq> []"
  by (auto simp add: strip_Nil)

lemma initialize_chat_session_result:
  "initialize_chat_session r (api_key_input w) (MODEL_NAME w) (system_instruction_of w)
     safety_settings (generation_config_of w) =
   (case start_chat_result r w of
      Inr chat \<Rightarrow>
        (Some chat,
         [CallStartChat (api_key_input w) (MODEL_NAME w) (system_instruction_of w)
            (generation_config_of w)])
    | Inl e \<Rightarrow>
        (None,
         [CallStartChat (api_key_input w) (MODEL_NAME w) (system_instruction_of w)
            (generation_config_of w),
          StError (''Error initializing Gemini model: '' @ e)]))"
proof -
  have "(case system_instruction_of w of None \<Rightarrow> None
         | Some t \<Rightarrow> if t \<noteq> [] then Some t else None) = system_instruction_of w"
    by (auto simp add: system_instruction_of_def strip_Nil)
  then show ?thesis
    by (simp add: initialize_chat_session_def start_chat_result_def Let_def)
qed

lemma reinitialize_success:
  assumes "api_key_input w \<noteq> []" and "start_chat_result r w = Inr c"
  shows "reinitialize r w s =
    (rebound w [] (Some c),
     [CallStartChat (api_key_input w) (MODEL_NAME w) (system_instruction_of w)
        (generation_config_of w),
      StToast (''Chat session initialized with ''
               @ selected_model_display_name (selected_model w) @ ''!'')])"
  using assms initialize_chat_session_result [of r w]
  by (cases "strip (system_prompt_input w) = []")
    (simp_all add: reinitialize_def rebound_def Let_def system_instruction_of_def
      generation_config_of_def)

lemma reinitialize_failure:
  assumes "api_key_input w \<noteq> []" and "start_chat_result r w = Inl e"
  shows "reinitialize r w s =
    (rebound w (messages s) None,
     [CallStartChat (api_key_input w) (MODEL_NAME w) (system_instruction_of w)
        (generation_config_of w),
      StError (''Error initializing Gemini model: '' @ e),
      StError ''Failed to initialize chat. Please check API key and model.''])"
  using assms initialize_chat_session_result [of r w]
  by (cases "strip (system_prompt_input w) = []")
    (simp_all add: reinitialize_def rebound_def Let_def system_instruction_of_def
      generation_config_of_def)

lemma reinitialize_no_key:
  assumes "api_key_input w = []"
  shows "reinitialize r w s =
    (rebound w (messages s) None,
     if env_api_key w = None \<or> env_api_key w = Some [] then
       [StWarning ''Please enter your Gemini API Key in the sidebar to start chatting.'']
     else [])"
  using assms by (simp add: reinitialize_def rebound_def Let_def)

lemma reinitialize_forgets_session:
  "reinitialize r w (s\<lparr>chat_session := c\<rparr>) = reinitialize r w s"
  by (simp add: reinitialize_def Let_def split_def split: option.splits)

lemma session_manager_stored:
  "session_manager r w (stored s) =
     (if same_settings w s then (s, []) else reinitialize r w s)"
proof -
  have init: "session_state_initialization w (stored s) =
      (s\<lparr>chat_session := None\<rparr>, Some (chat_session s))"
    by (simp add: session_state_initialization_def stored_def)
  have changed: "settings_changed w (s\<lparr>chat_session := None\<rparr>, Some (chat_session s)) =
      (\<not> same_settings w s)"
    by (auto simp add: settings_changed_def same_settings_def)
  show ?thesis
    by (simp add: session_manager_def init changed Let_def reinitialize_forgets_session)
qed

lemma session_manager_first_run:
  "session_manager r w empty_session_state = reinitialize r w (rebound w [] None)"
  by (simp add: session_manager_def session_state_initialization_def empty_session_state_def
      settings_changed_def Let_def rebound_def)

section \<open>The chat input handler\<close>

text \<open>The handler once its three checks (lines 153 to 157) have passed.\<close>

lemma handle_live:
  assumes "user_prompt w = Some prompt" "prompt \<noteq> []" "api_key s \<noteq> []"
    and "chat_session s = Some c"
  shows "handle_user_input r w s =
     (let ms = messages s @ [\<lparr>role = ''user'', content = prompt\<rparr>];
          (es, res) = for_chunk_in_response_stream (send_message r c prompt) []
      in case res of
           Inr full \<Rightarrow>
             (s\<lparr>messages := ms @ [\<lparr>role = ''assistant'', content = full\<rparr>]\<rparr>,
              [ChatMarkdown ''user'' prompt, CallSendMessage c prompt] @ es
                @ [PlaceholderMarkdown full])
         | Inl e \<Rightarrow>
             (s\<lparr>messages := snd (except e ms)\<rparr>,
              [ChatMarkdown ''user'' prompt, CallSendMessage c prompt] @ es
                @ fst (except e ms)))"
  using assms
  by (simp add: handle_user_input_def try_send_def Let_def split_def split: sum.splits)

lemma except_shape:
  "\<exists>pre suf. snd (except e ms) = ms @ [\<lparr>role = ''assistant'', content = pre @ str_exc e @ suf\<rparr>]"
proof (cases e)
  case (BlockedPromptException d)
  have "snd (except e ms) = ms @ [\<lparr>role = ''assistant'',
      content = ''I'm sorry, I can't respond to that due to safety guidelines. (Blocked Prompt: '' @ str_exc e @ '')''\<rparr>]"
    by (simp add: BlockedPromptException)
  then show ?thesis by blast
next
  case (StopCandidateException d)
  have "snd (except e ms) = ms @ [\<lparr>role = ''assistant'',
      content = ''My apologies, my response was cut short. (Stop Candidate: '' @ str_exc e @ '')''\<rparr>]"
    by (simp add: StopCandidateException)
  then show ?thesis by blast
next
  case (OtherException d)
  have "snd (except e ms) = ms @ [\<lparr>role = ''assistant'',
      content = ''Sorry, an unexpected error occurred: '' @ str_exc e @ []\<rparr>]"
    by (simp add: OtherException)
  then show ?thesis by blast
qed

lemma except_no_remote_call: "filter is_remote_call (fst (except e ms)) = []"
  by (cases e) simp_all

text \<open>
  Claim C2. When the three checks of the handler pass and the remote stream yields the text
  fragments \<open>ts\<close> and is then exhausted, the run appends the user message and exactly one
  assistant message whose content is the concatenation of \<open>ts\<close> in arrival order. After the
  \<open>i\<close>-th fragment the placeholder shows the concatenation of the first \<open>i\<close> fragments
  (followed by the cursor mark that line 179 adds), in order, and after the loop it shows
  the complete content.
\<close>

theorem stream_completes_appends_concatenation:
  assumes "user_prompt w = Some prompt" and "prompt \<noteq> []" and "api_key s \<noteq> []"
    and "chat_session s = Some c"
    and "send_message r c prompt = yield_texts ts Exhausted"
  shows "handle_user_input r w s =
    (s\<lparr>messages := messages s @ [\<lparr>role = ''user'', content = prompt\<rparr>,
                                   \<lparr>role = ''assistant'', content = concat ts\<rparr>]\<rparr>,
     [ChatMarkdown ''user'' prompt, CallSendMessage c prompt]
       @ map (\<lambda>i. PlaceholderMarkdown (concat (take (Suc i) ts) @ cursor)) [0..<length ts]
       @ [PlaceholderMarkdown (concat ts)])"
proof -
  have loop: "for_chunk_in_response_stream (send_message r c prompt) [] =
      (map (\<lambda>i. PlaceholderMarkdown (concat (take (Suc i) ts) @ cursor)) [0..<length ts],
       Inr (concat ts))"
    by (simp add: assms(5) loop_yield_texts partial_contents_take comp_def del: upt_Suc)
  show ?thesis
    by (simp only: handle_live [OF assms(1-4)] loop Let_def split_conv sum.case append_assoc
        append_Cons append_Nil)
qed

theorem stream_completes_appends_concatenation_witness:
  "handle_user_input example_remote (example_widgets\<lparr>user_prompt := Some ''hi''\<rparr>) example_state =
    (example_state\<lparr>messages :=
        [\<lparr>role = ''user'', content = ''hello''\<rparr>, \<lparr>role = ''assistant'', content = ''Hi!''\<rparr>,
         \<lparr>role = ''user'', content = ''hi''\<rparr>,
         \<lparr>role = ''assistant'', content = ''Hello there''\<rparr>]\<rparr>,
     [ChatMarkdown ''user'' ''hi'', CallSendMessage (ChatSession 1) ''hi'',
      PlaceholderMarkdown (''Hel'' @ cursor), PlaceholderMarkdown (''Hello'' @ cursor),
      PlaceholderMarkdown (''Hello there'' @ cursor), PlaceholderMarkdown ''Hello there''])"
  using stream_completes_appends_concatenation
    [of "example_widgets\<lparr>user_prompt := Some ''hi''\<rparr>" "''hi''" example_state "ChatSession 1"
        example_remote "[''Hel'', ''lo'', '' there'']"]
  by (simp add: example_defs)

text \<open>
  The \<open>else\<close> branch of line 180. When the stream yields the text fragments \<open>ts\<close> and
  then a chunk that has no \<open>text\<close> attribute, the loop stops: whatever the stream would
  have yielded afterwards (\<open>rest\<close>) has no influence. A warning is shown and no error, and
  the assistant message that is appended has exactly the concatenation of \<open>ts\<close> as content.
\<close>

theorem malformed_chunk_keeps_partial_output:
  assumes "user_prompt w = Some prompt" and "prompt \<noteq> []" and "api_key s \<noteq> []"
    and "chat_session s = Some c"
    and "send_message r c prompt = yield_texts ts (Yield (NoText x) rest)"
  shows "handle_user_input r w s =
    (s\<lparr>messages := messages s @ [\<lparr>role = ''user'', content = prompt\<rparr>,
                                   \<lparr>role = ''assistant'', content = concat ts\<rparr>]\<rparr>,
     [ChatMarkdown ''user'' prompt, CallSendMessage c prompt]
       @ map (\<lambda>p. PlaceholderMarkdown (p @ cursor)) (partial_contents [] ts)
       @ [StWarning (''Received an unexpected chunk: '' @ x),
          PlaceholderMarkdown (concat ts)])"
proof -
  have loop: "for_chunk_in_response_stream (send_message r c prompt) [] =
      (map (\<lambda>p. PlaceholderMarkdown (p @ cursor)) (partial_contents [] ts)
         @ [StWarning (''Received an unexpected chunk: '' @ x)],
       Inr (concat ts))"
    by (simp add: assms(5) loop_yield_texts)
  show ?thesis
    by (simp only: handle_live [OF assms(1-4)] loop Let_def split_conv sum.case append_assoc
        append_Cons append_Nil)
qed

theorem malformed_chunk_keeps_partial_output_witness:
  "handle_user_input example_remote (example_widgets\<lparr>user_prompt := Some ''odd''\<rparr>) example_state =
    (example_state\<lparr>messages :=
        [\<lparr>role = ''user'', content = ''hello''\<rparr>, \<lparr>role = ''assistant'', content = ''Hi!''\<rparr>,
         \<lparr>role = ''user'', content = ''odd''\<rparr>,
         \<lparr>role = ''assistant'', content = ''partial''\<rparr>]\<rparr>,
     [ChatMarkdown ''user'' ''odd'', CallSendMessage (ChatSession 1) ''odd'',
      PlaceholderMarkdown (''par'' @ cursor), PlaceholderMarkdown (''partial'' @ cursor),
      StWarning ''Received an unexpected chunk: <chunk>'', PlaceholderMarkdown ''partial''])"
  using malformed_chunk_keeps_partial_output
    [of "example_widgets\<lparr>user_prompt := Some ''odd''\<rparr>" "''odd''" example_state "ChatSession 1"
        example_remote "[''par'', ''tial'']" "''<chunk>''" "Yield (Text ''lost'') Exhausted"]
  by (simp add: example_defs)

text \<open>
  A chunk whose \<open>text\<close> property raises does not reach that branch: the exception leaves
  \<open>hasattr\<close> and the loop, and the last \<open>except\<close> clause replaces what was accumulated by
  its own message.
\<close>

lemma raising_text_accessor_discards_partial_output:
  assumes "user_prompt w = Some prompt" and "prompt \<noteq> []" and "api_key s \<noteq> []"
    and "chat_session s = Some c"
    and "send_message r c prompt = yield_texts ts (Yield (TextRaises (OtherException d)) rest)"
  shows "handle_user_input r w s =
    (s\<lparr>messages := messages s @ [\<lparr>role = ''user'', content = prompt\<rparr>,
         \<lparr>role = ''assistant'', content = ''Sorry, an unexpected error occurred: '' @ d\<rparr>]\<rparr>,
     [ChatMarkdown ''user'' prompt, CallSendMessage c prompt]
       @ map (\<lambda>p. PlaceholderMarkdown (p @ cursor)) (partial_contents [] ts)
       @ [StError (''An error occurred: '' @ d)])"
proof -
  have loop: "for_chunk_in_response_stream (send_message r c prompt) [] =
      (map (\<lambda>p. PlaceholderMarkdown (p @ cursor)) (partial_contents [] ts),
       Inl (OtherException d))"
    by (simp add: assms(5) loop_yield_texts)
  show ?thesis
    by (simp add: handle_live [OF assms(1-4)] loop)
qed

text \<open>
  Claim C7, evaluated. The answer to \<open>part\<close> yields the fragments \<open>par\<close> and \<open>tial\<close>
  and then a chunk that holds no text part. The run shows an error, not a warning, and the
  assistant message that it appends is the error notice: the accumulated \<open>partial\<close> is not
  kept.
\<close>

theorem textless_chunk_discards_partial_output:
  "handle_user_input example_remote (example_widgets\<lparr>user_prompt := Some ''part''\<rparr>) example_state =
    (example_state\<lparr>messages :=
        [\<lparr>role = ''user'', content = ''hello''\<rparr>, \<lparr>role = ''assistant'', content = ''Hi!''\<rparr>,
         \<lparr>role = ''user'', content = ''part''\<rparr>,
         \<lparr>role = ''assistant'',
          content = ''Sorry, an unexpected error occurred: The response.text quick accessor requires a valid Part''\<rparr>]\<rparr>,
     [ChatMarkdown ''user'' ''part'', CallSendMessage (ChatSession 1) ''part'',
      PlaceholderMarkdown (''par'' @ cursor), PlaceholderMarkdown (''partial'' @ cursor),
      StError ''An error occurred: The response.text quick accessor requires a valid Part''])"
  by (simp add: example_defs handle_user_input_def try_send_def Let_def)

text \<open>
  Claim C4. When the three checks pass and the remote call raises \<open>e\<close>, at once or after
  some text fragments, the handler returns normally with the user message and exactly one
  assistant message appended, whose content contains the description of \<open>e\<close>; the remote
  service has been called exactly once in the run of the handler.
\<close>

theorem remote_failure_recorded_once:
  assumes "user_prompt w = Some prompt" and "prompt \<noteq> []" and "api_key s \<noteq> []"
    and "chat_session s = Some c"
    and "send_message r c prompt = yield_texts ts (Raise e)"
  shows "(\<exists>pre suf. messages (fst (handle_user_input r w s)) =
            messages s @ [\<lparr>role = ''user'', content = prompt\<rparr>,
                          \<lparr>role = ''assistant'', content = pre @ str_exc e @ suf\<rparr>])
       \<and> filter is_remote_call (snd (handle_user_input r w s)) = [CallSendMessage c prompt]"
proof -
  let ?ms = "messages s @ [\<lparr>role = ''user'', content = prompt\<rparr>]"
  have loop: "for_chunk_in_response_stream (send_message r c prompt) [] =
      (map (\<lambda>p. PlaceholderMarkdown (p @ cursor)) (partial_contents [] ts), Inl e)"
    by (simp add: assms(5) loop_yield_texts)
  have res: "handle_user_input r w s =
      (s\<lparr>messages := snd (except e ?ms)\<rparr>,
       [ChatMarkdown ''user'' prompt, CallSendMessage c prompt]
         @ map (\<lambda>p. PlaceholderMarkdown (p @ cursor)) (partial_contents [] ts)
         @ fst (except e ?ms))"
    by (simp only: handle_live [OF assms(1-4)] loop Let_def split_conv sum.case)
  obtain pre suf where
    "snd (except e ?ms) = ?ms @ [\<lparr>role = ''assistant'', content = pre @ str_exc e @ suf\<rparr>]"
    using except_shape by blast
  then have "messages (fst (handle_user_input r w s)) =
      messages s @ [\<lparr>role = ''user'', content = prompt\<rparr>,
                    \<lparr>role = ''assistant'', content = pre @ str_exc e @ suf\<rparr>]"
    by (simp add: res)
  moreover have "filter is_remote_call (snd (handle_user_input r w s)) = [CallSendMessage c prompt]"
    by (simp add: res except_no_remote_call filter_map comp_def)
  ultimately show ?thesis by blast
qed

theorem remote_failure_recorded_once_witness:
  "(\<exists>pre suf. messages (fst (handle_user_input example_remote
                  (example_widgets\<lparr>user_prompt := Some ''bad''\<rparr>) example_state)) =
      [\<lparr>role = ''user'', content = ''hello''\<rparr>, \<lparr>role = ''assistant'', content = ''Hi!''\<rparr>,
       \<lparr>role = ''user'', content = ''bad''\<rparr>,
       \<lparr>role = ''assistant'', content = pre @ ''policy X'' @ suf\<rparr>])
   \<and> filter is_remote_call (snd (handle_user_input example_remote
          (example_widgets\<lparr>user_prompt := Some ''bad''\<rparr>) example_state)) =
       [CallSendMessage (ChatSession 1) ''bad'']"
  using remote_failure_recorded_once
    [of "example_widgets\<lparr>user_prompt := Some ''bad''\<rparr>" "''bad''" example_state "ChatSession 1"
        example_remote "[]" "BlockedPromptException ''policy X''"]
  by (simp add: example_defs)

lemma handle_live_messages:
  assumes "user_prompt w = Some prompt" and "prompt \<noteq> []" and "api_key s \<noteq> []"
    and "chat_session s = Some c"
  shows "messages (fst (handle_user_input r w s)) =
     (case snd (for_chunk_in_response_stream (send_message r c prompt) []) of
        Inr full \<Rightarrow> messages s @ [\<lparr>role = ''user'', content = prompt\<rparr>,
                                    \<lparr>role = ''assistant'', content = full\<rparr>]
      | Inl e \<Rightarrow> snd (except e (messages s @ [\<lparr>role = ''user'', content = prompt\<rparr>])))"
  by (simp add: handle_live [OF assms] Let_def split_def split: sum.splits)

text \<open>
  Claim C6. When the three checks pass, the transcript after the handler starts with the old
  transcript followed by the user message, whatever the remote service does.
\<close>

theorem user_message_always_appended:
  assumes "user_prompt w = Some prompt" and "prompt \<noteq> []" and "api_key s \<noteq> []"
    and "chat_session s = Some c"
  shows "take (Suc (length (messages s))) (messages (fst (handle_user_input r w s))) =
           messages s @ [\<lparr>role = ''user'', content = prompt\<rparr>]"
proof (cases "snd (for_chunk_in_response_stream (send_message r c prompt) [])")
  case (Inr full)
  then show ?thesis by (simp add: handle_live_messages [OF assms])
next
  case (Inl e)
  obtain pre suf where "snd (except e (messages s @ [\<lparr>role = ''user'', content = prompt\<rparr>])) =
      (messages s @ [\<lparr>role = ''user'', content = prompt\<rparr>])
        @ [\<lparr>role = ''assistant'', content = pre @ str_exc e @ suf\<rparr>]"
    using except_shape by blast
  then show ?thesis by (simp add: handle_live_messages [OF assms] Inl)
qed

theorem user_message_always_appended_witness:
  "take 3 (messages (fst (handle_user_input example_remote
             (example_widgets\<lparr>user_prompt := Some ''long''\<rparr>) example_state))) =
     [\<lparr>role = ''user'', content = ''hello''\<rparr>, \<lparr>role = ''assistant'', content = ''Hi!''\<rparr>,
      \<lparr>role = ''user'', content = ''long''\<rparr>]"
  using user_message_always_appended
    [of "example_widgets\<lparr>user_prompt := Some ''long''\<rparr>" "''long''" example_state "ChatSession 1"
        example_remote]
  by (simp add: example_defs eval_nat_numeral)

text \<open>
  When the three checks pass, the handler appends exactly two entries, whatever the remote
  service does: a message of role \<open>user\<close> and then a message of role \<open>assistant\<close>. When
  the stream is exhausted at once, or its first chunk has no \<open>text\<close> attribute, the content
  of the assistant message is the empty string.
\<close>

theorem exchange_appends_user_then_assistant:
  assumes "user_prompt w = Some prompt" and "prompt \<noteq> []" and "api_key s \<noteq> []"
    and "chat_session s = Some c"
  shows "(\<exists>text. messages (fst (handle_user_input r w s)) =
            messages s @ [\<lparr>role = ''user'', content = prompt\<rparr>,
                          \<lparr>role = ''assistant'', content = text\<rparr>])
       \<and> (send_message r c prompt = Exhausted
            \<or> (\<exists>x rest. send_message r c prompt = Yield (NoText x) rest)
          \<longrightarrow> messages (fst (handle_user_input r w s)) =
                messages s @ [\<lparr>role = ''user'', content = prompt\<rparr>,
                              \<lparr>role = ''assistant'', content = []\<rparr>])"
proof
  show "\<exists>text. messages (fst (handle_user_input r w s)) =
      messages s @ [\<lparr>role = ''user'', content = prompt\<rparr>,
                    \<lparr>role = ''assistant'', content = text\<rparr>]"
  proof (cases "snd (for_chunk_in_response_stream (send_message r c prompt) [])")
    case (Inr full)
    then show ?thesis by (simp add: handle_live_messages [OF assms])
  next
    case (Inl e)
    obtain pre suf where "snd (except e (messages s @ [\<lparr>role = ''user'', content = prompt\<rparr>])) =
        (messages s @ [\<lparr>role = ''user'', content = prompt\<rparr>])
          @ [\<lparr>role = ''assistant'', content = pre @ str_exc e @ suf\<rparr>]"
      using except_shape by blast
    then show ?thesis by (simp add: handle_live_messages [OF assms] Inl)
  qed
next
  show "send_message r c prompt = Exhausted
          \<or> (\<exists>x rest. send_message r c prompt = Yield (NoText x) rest)
        \<longrightarrow> messages (fst (handle_user_input r w s)) =
              messages s @ [\<lparr>role = ''user'', content = prompt\<rparr>,
                            \<lparr>role = ''assistant'', content = []\<rparr>]"
    by (auto simp add: handle_live_messages [OF assms])
qed

theorem exchange_appends_user_then_assistant_witness:
  "messages (fst (handle_user_input example_remote
      (example_widgets\<lparr>user_prompt := Some ''nothing''\<rparr>) example_state)) =
     [\<lparr>role = ''user'', content = ''hello''\<rparr>, \<lparr>role = ''assistant'', content = ''Hi!''\<rparr>,
      \<lparr>role = ''user'', content = ''nothing''\<rparr>, \<lparr>role = ''assistant'', content = []\<rparr>]"
  using exchange_appends_user_then_assistant
    [of "example_widgets\<lparr>user_prompt := Some ''nothing''\<rparr>" "''nothing''" example_state
        "ChatSession 1" example_remote]
  by (simp add: example_defs)

text \<open>
  Claim C10, evaluated. The first chunk of the answer to \<open>blank\<close> holds no text part. The
  run appends the user message and one assistant message, and the content of the assistant
  message is the error notice of line 198, not the empty string.
\<close>

theorem textless_first_chunk_records_error:
  "messages (fst (handle_user_input example_remote
      (example_widgets\<lparr>user_prompt := Some ''blank''\<rparr>) example_state)) =
     [\<lparr>role = ''user'', content = ''hello''\<rparr>, \<lparr>role = ''assistant'', content = ''Hi!''\<rparr>,
      \<lparr>role = ''user'', content = ''blank''\<rparr>,
      \<lparr>role = ''assistant'',
       content = ''Sorry, an unexpected error occurred: The response.text quick accessor requires a valid Part''\<rparr>]
   \<and> content (last (messages (fst (handle_user_input example_remote
         (example_widgets\<lparr>user_prompt := Some ''blank''\<rparr>) example_state)))) \<noteq> []
   \<and> snd (handle_user_input example_remote
         (example_widgets\<lparr>user_prompt := Some ''blank''\<rparr>) example_state) =
       [ChatMarkdown ''user'' ''blank'', CallSendMessage (ChatSession 1) ''blank'',
        StError ''An error occurred: The response.text quick accessor requires a valid Part'']"
  by (simp add: example_defs handle_user_input_def try_send_def Let_def)

text \<open>
  Claim C8. When a non-empty prompt is submitted while the stored key is empty or the session
  is \<open>None\<close>, the handler leaves the session state as it is, transcript included, calls
  nothing, and shows one error: that the key is missing, or that the session is not
  initialized.
\<close>

theorem send_without_session_leaves_transcript:
  assumes "user_prompt w = Some prompt" and "prompt \<noteq> []"
    and "api_key s = [] \<or> chat_session s = None"
  shows "handle_user_input r w s =
    (s, [StError (warning_sign @
           (if api_key s = [] then '' Please enter your Gemini API Key in the sidebar first!''
            else '' Chat session not initialized. Please check your API key and configuration in the sidebar.''))])"
  using assms by (auto simp add: handle_user_input_def)

theorem send_without_session_leaves_transcript_witness:
  "handle_user_input example_remote (example_widgets\<lparr>user_prompt := Some ''hi''\<rparr>)
     (example_state\<lparr>chat_session := None\<rparr>) =
   (example_state\<lparr>chat_session := None\<rparr>,
    [StError (warning_sign @
       '' Chat session not initialized. Please check your API key and configuration in the sidebar.'')])"
  using send_without_session_leaves_transcript
    [of "example_widgets\<lparr>user_prompt := Some ''hi''\<rparr>" "''hi''"
        "example_state\<lparr>chat_session := None\<rparr>" example_remote]
  by (simp add: example_defs)

section \<open>Runs of the whole script\<close>

lemmas script_defs = script_run_def script_body_def session_manager_def
  session_state_initialization_def settings_changed_def reinitialize_def
  initialize_chat_session_def display_chat_history_def handle_user_input_def try_send_def
  clear_chat_history_def stored_def empty_session_state_def MODEL_NAME_def strip_def

lemma example_first_run_eq:
  "example_first_run =
     \<lparr>api_key = ''valid-key'', model_name = ''gemini-1.5-flash-latest'', system_prompt = [],
      messages = [\<lparr>role = ''user'', content = ''hi''\<rparr>,
                  \<lparr>role = ''assistant'', content = ''Hello there''\<rparr>],
      chat_session = Some (ChatSession 1)\<rparr>"
  by (simp add: example_first_run_def example_defs script_defs Let_def)

lemma example_cleared_eq:
  "example_cleared =
     \<lparr>api_key = ''valid-key'', model_name = ''gemini-1.5-flash-latest'', system_prompt = [],
      messages = [], chat_session = None\<rparr>"
  by (simp add: example_cleared_def example_first_run_eq example_defs script_defs Let_def)

lemma same_settings_sampling:
  "same_settings (w\<lparr>temperature := t, max_tokens := n\<rparr>) s = same_settings w s"
  by (simp add: same_settings_def MODEL_NAME_def)

lemma handle_user_input_keeps_session:
  "chat_session (fst (handle_user_input r w s)) = chat_session s"
  by (simp add: handle_user_input_def Let_def split_def split: option.splits sum.splits)

text \<open>
  In every state that the script can reach, a live session comes with a non-empty key: the
  check of line 154 cannot fail where the check of line 156 passes.
\<close>

lemma handle_user_input_keeps_key:
  "api_key (fst (handle_user_input r w s)) = api_key s"
  by (simp add: handle_user_input_def Let_def split_def split: option.splits sum.splits)

lemma reinitialize_live_has_key:
  "chat_session (fst (reinitialize r w s)) \<noteq> None \<Longrightarrow> api_key (fst (reinitialize r w s)) \<noteq> []"
  by (auto simp add: reinitialize_def Let_def split_def split: if_splits option.splits)

lemma session_manager_live_has_key:
  assumes "\<forall>c k. chat_session_entry d = Some (Some c) \<and> api_key_entry d = Some k \<longrightarrow> k \<noteq> []"
    and "chat_session_entry d \<noteq> None \<longrightarrow> api_key_entry d \<noteq> None"
  shows "chat_session (fst (session_manager r w d)) \<noteq> None
           \<longrightarrow> api_key (fst (session_manager r w d)) \<noteq> []"
proof (cases "settings_changed w (session_state_initialization w d)")
  case True
  then show ?thesis
    using reinitialize_live_has_key by (simp add: session_manager_def Let_def)
next
  case False
  then obtain c where c: "chat_session_entry d = Some c"
    by (auto simp add: settings_changed_def session_state_initialization_def)
  with assms(2) obtain k where k: "api_key_entry d = Some k" by auto
  show ?thesis
    using False assms(1) c k
    by (auto simp add: session_manager_def Let_def session_state_initialization_def)
qed

lemma script_body_live_has_key:
  assumes "\<forall>c k. chat_session_entry d = Some (Some c) \<and> api_key_entry d = Some k \<longrightarrow> k \<noteq> []"
    and "chat_session_entry d \<noteq> None \<longrightarrow> api_key_entry d \<noteq> None"
  shows "chat_session (fst (script_body r w d)) \<noteq> None
           \<longrightarrow> api_key (fst (script_body r w d)) \<noteq> []"
  using session_manager_live_has_key [OF assms, of r w]
  by (simp add: script_body_def split_def Let_def handle_user_input_keeps_key
      handle_user_input_keeps_session)

lemma live_session_has_key:
  "reachable s \<Longrightarrow> chat_session s \<noteq> None \<longrightarrow> api_key s \<noteq> []"
proof (induction rule: reachable.induct)
  case (first_run r w)
  show ?case
  proof (cases "clear_button w")
    case True
    have "session_manager r (w\<lparr>clear_button := False, user_prompt := None\<rparr>)
        (clear_chat_history empty_session_state) =
        (rebound w [] None, [])"
      by (simp add: session_manager_def session_state_initialization_def settings_changed_def
          clear_chat_history_def empty_session_state_def rebound_def MODEL_NAME_def Let_def)
    then show ?thesis
      using True
      by (simp add: script_run_def script_body_def handle_user_input_def rebound_def)
  next
    case False
    then show ?thesis
      using script_body_live_has_key [of empty_session_state r w]
      by (simp add: script_run_def empty_session_state_def)
  qed
next
  case (next_run s r w)
  show ?case
  proof (cases "clear_button w")
    case True
    then show ?thesis
      using script_body_live_has_key
        [of "clear_chat_history (stored s)" r "w\<lparr>clear_button := False, user_prompt := None\<rparr>"]
      by (simp add: script_run_def clear_chat_history_def stored_def)
  next
    case False
    then show ?thesis
      using script_body_live_has_key [of "stored s" r w] next_run.IH
      by (simp add: script_run_def stored_def)
  qed
qed

text \<open>
  The clear button for any state and any remote service: with unchanged settings the run
  ends without a session, and every later run with these settings leaves it so.
\<close>

lemma clear_button_unsets_session:
  assumes "same_settings w s"
  shows "script_run r (w\<lparr>clear_button := True\<rparr>) (stored s) =
           (s\<lparr>messages := [], chat_session := None\<rparr>, [])"
proof -
  have cleared: "clear_chat_history (stored s) = stored (s\<lparr>messages := [], chat_session := None\<rparr>)"
    by (simp add: clear_chat_history_def stored_def)
  have same: "same_settings (w\<lparr>clear_button := False, user_prompt := None\<rparr>)
      (s\<lparr>messages := [], chat_session := None\<rparr>)"
    using assms by (simp add: same_settings_def MODEL_NAME_def)
  show ?thesis
    by (simp add: script_run_def script_body_def cleared session_manager_stored same
        display_chat_history_def handle_user_input_def)
qed

lemma unset_session_is_not_recreated:
  assumes "same_settings w s" and "chat_session s = None" and "\<not> clear_button w"
  shows "chat_session (fst (script_run r w (stored s))) = None"
  using assms
  by (simp add: script_run_def script_body_def session_manager_stored
      handle_user_input_keeps_session split_def Let_def)

text \<open>
  Claim C1, as the code has it. In a run that finds the state \<open>s\<close> of an earlier run:
  when none of the tracked settings (key, model, system prompt) differs and a session is
  live, the session manager returns the state unchanged, transcript included, and calls
  nothing. When a tracked setting differs, the new settings are stored and the old session
  is dropped: if the key is not empty and the remote service gives a session, that session
  is bound and the transcript is empty; if the remote service refuses, or the key is empty,
  no session is bound and the transcript is left as it was. In the first run, where no
  \<open>chat_session\<close> entry exists yet, the session is created in the same way.
\<close>

theorem session_manager_rebinds_on_tracked_change:
  "(same_settings w s \<and> chat_session s = Some c \<longrightarrow>
      session_manager r w (stored s) = (s, []))
   \<and> (\<not> same_settings w s \<and> api_key_input w \<noteq> [] \<and> start_chat_result r w = Inr c' \<longrightarrow>
      session_manager r w (stored s) =
        (rebound w [] (Some c'),
         [CallStartChat (api_key_input w) (MODEL_NAME w) (system_instruction_of w)
            (generation_config_of w),
          StToast (''Chat session initialized with ''
                   @ selected_model_display_name (selected_model w) @ ''!'')]))
   \<and> (\<not> same_settings w s \<and> api_key_input w \<noteq> [] \<and> start_chat_result r w = Inl e \<longrightarrow>
      session_manager r w (stored s) =
        (rebound w (messages s) None,
         [CallStartChat (api_key_input w) (MODEL_NAME w) (system_instruction_of w)
            (generation_config_of w),
          StError (''Error initializing Gemini model: '' @ e),
          StError ''Failed to initialize chat. Please check API key and model.'']))
   \<and> (\<not> same_settings w s \<and> api_key_input w = [] \<longrightarrow>
      session_manager r w (stored s) =
        (rebound w (messages s) None,
         if env_api_key w = None \<or> env_api_key w = Some [] then
           [StWarning ''Please enter your Gemini API Key in the sidebar to start chatting.'']
         else []))
   \<and> (api_key_input w \<noteq> [] \<and> start_chat_result r w = Inr c' \<longrightarrow>
      session_manager r w empty_session_state =
        (rebound w [] (Some c'),
         [CallStartChat (api_key_input w) (MODEL_NAME w) (system_instruction_of w)
            (generation_config_of w),
          StToast (''Chat session initialized with ''
                   @ selected_model_display_name (selected_model w) @ ''!'')]))
   \<and> (api_key_input w = [] \<or> (\<exists>e. start_chat_result r w = Inl e) \<longrightarrow>
      fst (session_manager r w empty_session_state) = rebound w [] None)"
proof -
  have "api_key_input w = [] \<or> (\<exists>e. start_chat_result r w = Inl e) \<Longrightarrow>
      fst (reinitialize r w (rebound w [] None)) = rebound w [] None"
    by (cases "api_key_input w = []")
      (auto simp add: reinitialize_no_key reinitialize_failure rebound_def)
  then show ?thesis
    by (simp add: session_manager_stored session_manager_first_run reinitialize_success
        reinitialize_failure reinitialize_no_key)
qed

theorem session_manager_rebinds_on_tracked_change_witness:
  "session_manager example_remote example_widgets (stored example_state) = (example_state, [])
   \<and> session_manager example_remote (example_widgets\<lparr>selected_model := Gemini_1_0_Pro\<rparr>)
        (stored example_state) =
      (\<lparr>api_key = ''valid-key'', model_name = ''gemini-1.0-pro'', system_prompt = [],
        messages = [], chat_session = Some (ChatSession 2)\<rparr>,
       [CallStartChat ''valid-key'' ''gemini-1.0-pro'' None
          \<lparr>cfg_temperature = 7 / 10, cfg_max_output_tokens = 2048\<rparr>,
        StToast ''Chat session initialized with Gemini 1.0 Pro!''])
   \<and> session_manager example_remote (example_widgets\<lparr>api_key_input := ''wrong-key''\<rparr>)
        (stored example_state) =
      (\<lparr>api_key = ''wrong-key'', model_name = ''gemini-1.5-flash-latest'', system_prompt = [],
        messages = [\<lparr>role = ''user'', content = ''hello''\<rparr>,
                    \<lparr>role = ''assistant'', content = ''Hi!''\<rparr>],
        chat_session = None\<rparr>,
       [CallStartChat ''wrong-key'' ''gemini-1.5-flash-latest'' None
          \<lparr>cfg_temperature = 7 / 10, cfg_max_output_tokens = 2048\<rparr>,
        StError ''Error initializing Gemini model: API key not valid'',
        StError ''Failed to initialize chat. Please check API key and model.''])
   \<and> session_manager example_remote (example_widgets\<lparr>api_key_input := []\<rparr>)
        (stored example_state) =
      (\<lparr>api_key = [], model_name = ''gemini-1.5-flash-latest'', system_prompt = [],
        messages = [\<lparr>role = ''user'', content = ''hello''\<rparr>,
                    \<lparr>role = ''assistant'', content = ''Hi!''\<rparr>],
        chat_session = None\<rparr>,
       [StWarning ''Please enter your Gemini API Key in the sidebar to start chatting.''])
   \<and> session_manager example_remote example_widgets empty_session_state =
      (\<lparr>api_key = ''valid-key'', model_name = ''gemini-1.5-flash-latest'', system_prompt = [],
        messages = [], chat_session = Some (ChatSession 1)\<rparr>,
       [CallStartChat ''valid-key'' ''gemini-1.5-flash-latest'' None
          \<lparr>cfg_temperature = 7 / 10, cfg_max_output_tokens = 2048\<rparr>,
        StToast ''Chat session initialized with Gemini 1.5 Flash (Latest)!''])
   \<and> fst (session_manager example_remote (example_widgets\<lparr>api_key_input := []\<rparr>)
          empty_session_state) =
      \<lparr>api_key = [], model_name = ''gemini-1.5-flash-latest'', system_prompt = [],
       messages = [], chat_session = None\<rparr>"
  using session_manager_rebinds_on_tracked_change
      [where w = example_widgets and s = example_state and c = "ChatSession 1"
         and r = example_remote and c' = "ChatSession 1"]
    session_manager_rebinds_on_tracked_change
      [where w = "example_widgets\<lparr>selected_model := Gemini_1_0_Pro\<rparr>" and s = example_state
         and r = example_remote and c' = "ChatSession 2"]
    session_manager_rebinds_on_tracked_change
      [where w = "example_widgets\<lparr>api_key_input := ''wrong-key''\<rparr>" and s = example_state
         and r = example_remote and e = "''API key not valid''"]
    session_manager_rebinds_on_tracked_change
      [where w = "example_widgets\<lparr>api_key_input := []\<rparr>" and s = example_state
         and r = example_remote]
  by (simp add: example_defs same_settings_def MODEL_NAME_def start_chat_result_def
      rebound_def system_instruction_of_def generation_config_of_def strip_def)

text \<open>
  After a first run that sent \<open>hi\<close>, the key field is emptied: a tracked setting differs,
  yet no session is created and the transcript keeps its two messages.
\<close>

theorem emptied_key_keeps_transcript_counterexample:
  "\<not> same_settings (example_widgets\<lparr>api_key_input := []\<rparr>) example_first_run
   \<and> chat_session (fst (session_manager example_remote (example_widgets\<lparr>api_key_input := []\<rparr>)
                          (stored example_first_run))) = None
   \<and> messages (fst (session_manager example_remote (example_widgets\<lparr>api_key_input := []\<rparr>)
                       (stored example_first_run))) =
       [\<lparr>role = ''user'', content = ''hi''\<rparr>,
        \<lparr>role = ''assistant'', content = ''Hello there''\<rparr>]
   \<and> filter is_remote_call
         (snd (session_manager example_remote (example_widgets\<lparr>api_key_input := []\<rparr>)
                 (stored example_first_run))) = []"
  by (simp add: example_first_run_eq example_defs same_settings_def script_defs Let_def)

text \<open>
  Claim C3, as the code has it. When a tracked setting differs from the stored one and the
  new key is empty or the remote service refuses the session, the session is unset and the
  transcript is left as it was. A session that is live after such a change always comes
  with an empty transcript.
\<close>

theorem failed_rebind_unsets_session_keeps_transcript:
  assumes "\<not> same_settings w s"
  shows "(api_key_input w = [] \<or> (\<exists>e. start_chat_result r w = Inl e) \<longrightarrow>
            fst (session_manager r w (stored s)) = rebound w (messages s) None)
       \<and> (chat_session (fst (session_manager r w (stored s))) \<noteq> None \<longrightarrow>
            messages (fst (session_manager r w (stored s))) = [])"
proof (cases "api_key_input w = []")
  case True
  then show ?thesis
    using assms by (simp add: session_manager_stored reinitialize_no_key rebound_def)
next
  case False
  show ?thesis
  proof (cases "start_chat_result r w")
    case (Inl e)
    then show ?thesis
      using assms False
      by (simp add: session_manager_stored reinitialize_failure rebound_def)
  next
    case (Inr c)
    then show ?thesis
      using assms False
      by (simp add: session_manager_stored reinitialize_success rebound_def)
  qed
qed

theorem failed_rebind_unsets_session_keeps_transcript_witness:
  "fst (session_manager example_remote (example_widgets\<lparr>api_key_input := ''wrong-key''\<rparr>)
          (stored example_state)) =
     \<lparr>api_key = ''wrong-key'', model_name = ''gemini-1.5-flash-latest'', system_prompt = [],
      messages = [\<lparr>role = ''user'', content = ''hello''\<rparr>,
                  \<lparr>role = ''assistant'', content = ''Hi!''\<rparr>],
      chat_session = None\<rparr>
   \<and> messages (fst (session_manager example_remote
                       (example_widgets\<lparr>selected_model := Gemini_1_0_Pro\<rparr>)
                       (stored example_state))) = []"
proof -
  have changed: "\<not> same_settings (example_widgets\<lparr>api_key_input := ''wrong-key''\<rparr>) example_state"
    by (simp add: example_defs same_settings_def)
  have fails: "start_chat_result example_remote (example_widgets\<lparr>api_key_input := ''wrong-key''\<rparr>) =
      Inl ''API key not valid''"
    by (simp add: example_defs start_chat_result_def)
  have changed': "\<not> same_settings (example_widgets\<lparr>selected_model := Gemini_1_0_Pro\<rparr>) example_state"
    by (simp add: example_defs same_settings_def MODEL_NAME_def)
  have live: "chat_session (fst (session_manager example_remote
        (example_widgets\<lparr>selected_model := Gemini_1_0_Pro\<rparr>) (stored example_state))) \<noteq> None"
    by (simp add: example_defs script_defs Let_def)
  show ?thesis
    using failed_rebind_unsets_session_keeps_transcript [OF changed, of example_remote]
      failed_rebind_unsets_session_keeps_transcript [OF changed', of example_remote]
      fails live
    by (simp add: rebound_def example_defs MODEL_NAME_def)
qed

text \<open>
  After a first run that sent \<open>hi\<close>, the key is replaced by one the service refuses: the
  run ends with no session and with the two messages of the old settings in the transcript.
\<close>

theorem failed_rebind_keeps_transcript_counterexample:
  "chat_session (fst (script_run example_remote
                        (example_widgets\<lparr>api_key_input := ''wrong-key''\<rparr>)
                        (stored example_first_run))) = None
   \<and> messages (fst (script_run example_remote
                       (example_widgets\<lparr>api_key_input := ''wrong-key''\<rparr>)
                       (stored example_first_run))) =
       [\<lparr>role = ''user'', content = ''hi''\<rparr>,
        \<lparr>role = ''assistant'', content = ''Hello there''\<rparr>]"
  by (simp add: example_first_run_eq example_defs script_defs Let_def)

text \<open>
  Claim C9, as the code has it. With the tracked settings unchanged and a session live, a
  new temperature or a new maximum of output tokens leaves the session state as it is and
  calls nothing. When a tracked setting differs, the session after the run is the one the
  remote service gives for the new settings, or none.
\<close>

theorem sampling_parameters_are_not_tracked:
  "(same_settings w s \<and> chat_session s = Some c \<longrightarrow>
      session_manager r (w\<lparr>temperature := t, max_tokens := n\<rparr>) (stored s) = (s, []))
   \<and> (\<not> same_settings w s \<longrightarrow>
      chat_session (fst (session_manager r w (stored s))) =
        (if api_key_input w = [] then None
         else case start_chat_result r w of Inr c' \<Rightarrow> Some c' | Inl e \<Rightarrow> None))"
proof -
  have "\<not> same_settings w s \<Longrightarrow> api_key_input w \<noteq> [] \<Longrightarrow>
      chat_session (fst (reinitialize r w s)) =
        (case start_chat_result r w of Inr c' \<Rightarrow> Some c' | Inl e \<Rightarrow> None)"
    by (cases "start_chat_result r w")
      (simp_all add: reinitialize_success reinitialize_failure rebound_def)
  then show ?thesis
    by (simp add: session_manager_stored same_settings_sampling reinitialize_no_key rebound_def)
qed

theorem sampling_parameters_are_not_tracked_witness:
  "session_manager example_remote (example_widgets\<lparr>temperature := 1 / 5, max_tokens := 100\<rparr>)
     (stored example_state) = (example_state, [])
   \<and> chat_session (fst (session_manager example_remote
                          (example_widgets\<lparr>selected_model := Gemini_1_0_Pro\<rparr>)
                          (stored example_state))) = Some (ChatSession 2)"
  using sampling_parameters_are_not_tracked
      [where w = example_widgets and s = example_state and c = "ChatSession 1"
         and r = example_remote and t = "1 / 5" and n = 100]
    sampling_parameters_are_not_tracked
      [where w = "example_widgets\<lparr>selected_model := Gemini_1_0_Pro\<rparr>" and s = example_state
         and r = example_remote]
  by (simp add: example_defs same_settings_def MODEL_NAME_def start_chat_result_def)

text \<open>
  The session of the first run is created with temperature 0.7 and 2048 tokens. A later run
  with temperature 0.2 and 100 tokens keeps that session and does not call the service.
\<close>

theorem temperature_change_keeps_session_counterexample:
  "filter is_remote_call
     (snd (script_run example_remote (example_widgets\<lparr>user_prompt := Some ''hi''\<rparr>)
             empty_session_state)) =
     [CallStartChat ''valid-key'' ''gemini-1.5-flash-latest'' None
        \<lparr>cfg_temperature = 7 / 10, cfg_max_output_tokens = 2048\<rparr>,
      CallSendMessage (ChatSession 1) ''hi'']
   \<and> chat_session example_first_run = Some (ChatSession 1)
   \<and> script_run example_remote (example_widgets\<lparr>temperature := 1 / 5, max_tokens := 100\<rparr>)
        (stored example_first_run) =
      (example_first_run,
       [ChatMarkdown ''user'' ''hi'', ChatMarkdown ''assistant'' ''Hello there''])"
  by (simp add: example_first_run_eq example_defs script_defs Let_def)

text \<open>
  Claim C5, evaluated. After a first run that sent \<open>hi\<close>, a click on the clear button
  empties the transcript and sets the session to \<open>None\<close>. In the next run, with the same
  settings, the prompt \<open>again\<close> is submitted: no session is created, nothing is appended,
  and the error that the session is not initialized is shown.
\<close>

theorem clear_then_send_is_not_reinitialized:
  "chat_session example_first_run = Some (ChatSession 1)
   \<and> same_settings example_widgets example_first_run
   \<and> script_run example_remote (example_widgets\<lparr>clear_button := True\<rparr>)
        (stored example_first_run) =
      (example_first_run\<lparr>messages := [], chat_session := None\<rparr>, [])
   \<and> script_run example_remote (example_widgets\<lparr>user_prompt := Some ''again''\<rparr>)
        (stored example_cleared) =
      (example_cleared,
       [StError (warning_sign @
          '' Chat session not initialized. Please check your API key and configuration in the sidebar.'')])
   \<and> chat_session example_cleared = None \<and> messages example_cleared = []"
  by (simp add: example_first_run_eq example_cleared_eq example_defs same_settings_def
      script_defs Let_def)

end
